theory Spec2Isabelle
  imports
    Main
    "HOL-Library.Multiset"
    "HOL-Library.Char_ord"
    "HOL-Library.List_Lexorder"
    "HOL-Library.Product_Lexorder"
begin

section \<open>JSON values as the Python program sees them\<close>

text \<open>
  \<^verbatim>\<open>json.load\<close> yields \<^verbatim>\<open>None\<close>, \<^verbatim>\<open>bool\<close>, \<^verbatim>\<open>int\<close>, \<^verbatim>\<open>float\<close>, \<^verbatim>\<open>str\<close>,
  \<^verbatim>\<open>list\<close> and \<^verbatim>\<open>dict\<close>. A float is carried by its \<^verbatim>\<open>repr\<close> (the only things the
  verifier does with one are \<^verbatim>\<open>str\<close>, truthiness and JSON output). A dict is an association
  list in insertion order; lookup takes the first binding of a key (a Python dict holds one
  binding per key). Strings are over ASCII: an Isabelle character is a byte, so UTF-8
  encoding is the identity and Python's code-point order is the byte order.
\<close>

datatype json =
    JNull
  | JBool bool
  | JInt int
  | JFloat string
  | JStr string
  | JArr "json list"
  | JObj "(string \<times> json) list"

datatype exn = ValueError string | AttributeError | OverflowError

fun is_dict :: "json \<Rightarrow> bool" where
  "is_dict (JObj kvs) = True"
| "is_dict _ = False"

fun items :: "json \<Rightarrow> (string \<times> json) list" where
  "items (JObj kvs) = kvs"
| "items _ = []"

text \<open>\<^verbatim>\<open>d.get(k, default)\<close> and \<^verbatim>\<open>d.get(k)\<close> (default \<^verbatim>\<open>None\<close>), for a dict \<^verbatim>\<open>d\<close>.\<close>

definition dict_get_default :: "json \<Rightarrow> string \<Rightarrow> json \<Rightarrow> json" where
  "dict_get_default d k dflt = (case map_of (items d) k of None \<Rightarrow> dflt | Some v \<Rightarrow> v)"

definition dict_get :: "json \<Rightarrow> string \<Rightarrow> json" where
  "dict_get d k = dict_get_default d k JNull"

text \<open>\<^verbatim>\<open>k in d\<close>.\<close>

definition dict_has :: "json \<Rightarrow> string \<Rightarrow> bool" where
  "dict_has d k = (map_of (items d) k \<noteq> None)"

text \<open>\<^verbatim>\<open>d.pop(k, None)\<close>, as the remaining bindings, and \<^verbatim>\<open>d[k] = v\<close>.\<close>

definition dict_pop :: "string \<Rightarrow> (string \<times> json) list \<Rightarrow> (string \<times> json) list" where
  "dict_pop k kvs = filter (\<lambda>kv. fst kv \<noteq> k) kvs"


text \<open>\<^verbatim>\<open>x if isinstance(x, dict) else {}\<close>.\<close>

definition as_dict :: "json \<Rightarrow> json" where
  "as_dict x = (if is_dict x then x else JObj [])"

text \<open>Python truthiness, \<^verbatim>\<open>bool(x)\<close>.\<close>

fun truthy :: "json \<Rightarrow> bool" where
  "truthy JNull = False"
| "truthy (JBool b) = b"
| "truthy (JInt i) = (i \<noteq> 0)"
| "truthy (JFloat r) = (r \<noteq> ''0.0'' \<and> r \<noteq> ''-0.0'')"
| "truthy (JStr s) = (s \<noteq> [])"
| "truthy (JArr xs) = (xs \<noteq> [])"
| "truthy (JObj kvs) = (kvs \<noteq> [])"

subsection \<open>\<^verbatim>\<open>str\<close> and \<^verbatim>\<open>repr\<close>\<close>

definition digit_char :: "nat \<Rightarrow> char" where
  "digit_char n = char_of (48 + n)"

fun str_nat :: "nat \<Rightarrow> string" where
  "str_nat n = (if n < 10 then [digit_char n] else str_nat (n div 10) @ [digit_char (n mod 10)])"

declare str_nat.simps [simp del]

definition str_int :: "int \<Rightarrow> string" where
  "str_int i = (if i < 0 then CHR ''-'' # str_nat (nat (- i)) else str_nat (nat i))"

definition hex_char :: "nat \<Rightarrow> char" where
  "hex_char n = (if n < 10 then char_of (48 + n) else char_of (87 + n))"

definition hex2 :: "char \<Rightarrow> string" where
  "hex2 c = [hex_char ((of_char c :: nat) div 16), hex_char ((of_char c :: nat) mod 16)]"

text \<open>
  \<^verbatim>\<open>repr\<close> of a string: double quotes when the text holds a single quote and no double
  quote, single quotes otherwise; backslash, the quote, tab, newline and carriage return
  are escaped, any other control character is written \<^verbatim>\<open>\xNN\<close>.
\<close>

definition repr_quote :: "string \<Rightarrow> char" where
  "repr_quote s = (if CHR 0x27 \<in> set s \<and> CHR 0x22 \<notin> set s then CHR 0x22 else CHR 0x27)"

definition repr_char :: "char \<Rightarrow> char \<Rightarrow> string" where
  "repr_char q c =
     (if c = q \<or> c = CHR 0x5C then [CHR 0x5C, c]
      else if c = CHR 0x09 then [CHR 0x5C, CHR ''t'']
      else if c = CHR 0x0A then [CHR 0x5C, CHR ''n'']
      else if c = CHR 0x0D then [CHR 0x5C, CHR ''r'']
      else if (of_char c :: nat) < 32 \<or> (of_char c :: nat) = 127 then [CHR 0x5C, CHR ''x''] @ hex2 c
      else [c])"

definition repr_str :: "string \<Rightarrow> string" where
  "repr_str s = (let q = repr_quote s in [q] @ concat (map (repr_char q) s) @ [q])"

fun join :: "string \<Rightarrow> string list \<Rightarrow> string" where
  "join sep [] = []"
| "join sep [x] = x"
| "join sep (x # y # ys) = x @ sep @ join sep (y # ys)"

fun py_repr :: "json \<Rightarrow> string"
  and py_repr_list :: "json list \<Rightarrow> string list"
  and py_repr_items :: "(string \<times> json) list \<Rightarrow> string list" where
  "py_repr JNull = ''None''"
| "py_repr (JBool b) = (if b then ''True'' else ''False'')"
| "py_repr (JInt i) = str_int i"
| "py_repr (JFloat r) = r"
| "py_repr (JStr s) = repr_str s"
| "py_repr (JArr xs) = ''['' @ join '', '' (py_repr_list xs) @ '']''"
| "py_repr (JObj kvs) = ''{'' @ join '', '' (py_repr_items kvs) @ ''}''"
| "py_repr_list [] = []"
| "py_repr_list (x # xs) = py_repr x # py_repr_list xs"
| "py_repr_items [] = []"
| "py_repr_items (kv # kvs) = (repr_str (fst kv) @ '': '' @ py_repr (snd kv)) # py_repr_items kvs"

definition py_str :: "json \<Rightarrow> string" where
  "py_str v = (case v of JStr s \<Rightarrow> s | _ \<Rightarrow> py_repr v)"

text \<open>\<^verbatim>\<open>s.strip()\<close>: the ASCII characters for which \<^verbatim>\<open>str.isspace\<close> holds.\<close>

definition is_space :: "char \<Rightarrow> bool" where
  "is_space c = (let n = (of_char c :: nat) in (9 \<le> n \<and> n \<le> 13) \<or> (28 \<le> n \<and> n \<le> 32))"

definition py_strip :: "string \<Rightarrow> string" where
  "py_strip s = rev (dropWhile is_space (rev (dropWhile is_space s)))"

section \<open>CanonicalCodec\<close>

subsection \<open>\<^verbatim>\<open>canonical_json_bytes\<close>\<close>

text \<open>
  \<^verbatim>\<open>json.dumps(value, ensure_ascii=False, separators=(",", ":"), sort_keys=True)\<close>:
  the characters \<^verbatim>\<open>"\<close> and \<^verbatim>\<open>\\<close> and the control characters below 0x20 are escaped,
  a dict is written in the order of its keys.
\<close>

definition hex4 :: "char \<Rightarrow> string" where
  "hex4 c = ''00'' @ hex2 c"

definition json_escape_char :: "char \<Rightarrow> string" where
  "json_escape_char c =
     (if c = CHR 0x22 then [CHR 0x5C, CHR 0x22]
      else if c = CHR 0x5C then [CHR 0x5C, CHR 0x5C]
      else if c = CHR 0x0A then [CHR 0x5C, CHR ''n'']
      else if c = CHR 0x0D then [CHR 0x5C, CHR ''r'']
      else if c = CHR 0x09 then [CHR 0x5C, CHR ''t'']
      else if c = CHR 0x08 then [CHR 0x5C, CHR ''b'']
      else if c = CHR 0x0C then [CHR 0x5C, CHR ''f'']
      else if (of_char c :: nat) < 32 then [CHR 0x5C, CHR ''u''] @ hex4 c
      else [c])"

definition json_string :: "string \<Rightarrow> string" where
  "json_string s = [CHR 0x22] @ concat (map json_escape_char s) @ [CHR 0x22]"

definition json_float :: "string \<Rightarrow> string" where
  "json_float r =
     (if r = ''nan'' then ''NaN'' else if r = ''inf'' then ''Infinity''
      else if r = ''-inf'' then ''-Infinity'' else r)"

text \<open>
  The values of a dict are rendered first and the rendered items are then put in key
  order, which is the order \<^verbatim>\<open>sort_keys=True\<close> writes them in.
\<close>

definition json_item :: "string \<times> string \<Rightarrow> string" where
  "json_item kv = json_string (fst kv) @ '':'' @ snd kv"

fun json_dumps :: "json \<Rightarrow> string"
  and json_dumps_list :: "json list \<Rightarrow> string list"
  and json_dumps_items :: "(string \<times> json) list \<Rightarrow> (string \<times> string) list" where
  "json_dumps JNull = ''null''"
| "json_dumps (JBool b) = (if b then ''true'' else ''false'')"
| "json_dumps (JInt i) = str_int i"
| "json_dumps (JFloat r) = json_float r"
| "json_dumps (JStr s) = json_string s"
| "json_dumps (JArr xs) = ''['' @ join '','' (json_dumps_list xs) @ '']''"
| "json_dumps (JObj kvs) = ''{'' @ join '','' (map json_item (sort_key fst (json_dumps_items kvs))) @ ''}''"
| "json_dumps_list [] = []"
| "json_dumps_list (x # xs) = json_dumps x # json_dumps_list xs"
| "json_dumps_items [] = []"
| "json_dumps_items (kv # kvs) = (fst kv, json_dumps (snd kv)) # json_dumps_items kvs"

definition canonical_json_bytes :: "json \<Rightarrow> string" where
  "canonical_json_bytes v = json_dumps v"

subsection \<open>The library functions of \<^verbatim>\<open>urllib.parse\<close> and \<^verbatim>\<open>posixpath\<close>\<close>

text \<open>
  \<^verbatim>\<open>urlsplit\<close>, the properties of its result, \<^verbatim>\<open>urlunsplit\<close>, \<^verbatim>\<open>quote\<close> and
  \<^verbatim>\<open>posixpath.normpath\<close> follow the CPython 3.12 library, on ASCII text. Two checks of
  \<^verbatim>\<open>urlsplit\<close> are not modelled, and both only make it raise \<^verbatim>\<open>ValueError\<close> on more inputs:
  the validation of the text between brackets as an IP address, and the NFKC check of a
  non-ASCII host.
\<close>

definition is_ascii_alpha :: "char \<Rightarrow> bool" where
  "is_ascii_alpha c = (let n = (of_char c :: nat) in (65 \<le> n \<and> n \<le> 90) \<or> (97 \<le> n \<and> n \<le> 122))"

definition is_ascii_digit :: "char \<Rightarrow> bool" where
  "is_ascii_digit c = (let n = (of_char c :: nat) in 48 \<le> n \<and> n \<le> 57)"

definition is_hex_digit :: "char \<Rightarrow> bool" where
  "is_hex_digit c =
     (let n = (of_char c :: nat) in (48 \<le> n \<and> n \<le> 57) \<or> (65 \<le> n \<and> n \<le> 70) \<or> (97 \<le> n \<and> n \<le> 102))"

definition ascii_lower :: "char \<Rightarrow> char" where
  "ascii_lower c = (let n = (of_char c :: nat) in if 65 \<le> n \<and> n \<le> 90 then char_of (n + 32) else c)"

definition ascii_upper :: "char \<Rightarrow> char" where
  "ascii_upper c = (let n = (of_char c :: nat) in if 97 \<le> n \<and> n \<le> 122 then char_of (n - 32) else c)"

definition lower :: "string \<Rightarrow> string" where
  "lower s = map ascii_lower s"

definition startswith :: "string \<Rightarrow> string \<Rightarrow> bool" where
  "startswith s prefix = (take (length prefix) s = prefix)"

definition endswith :: "string \<Rightarrow> string \<Rightarrow> bool" where
  "endswith s suffix = (length suffix \<le> length s \<and> drop (length s - length suffix) s = suffix)"

text \<open>\<^verbatim>\<open>s.partition(c)\<close> and \<^verbatim>\<open>s.rpartition(c)\<close>; the middle component says whether \<open>c\<close> was found.\<close>

definition str_partition :: "char \<Rightarrow> string \<Rightarrow> string \<times> bool \<times> string" where
  "str_partition c s =
     (if c \<in> set s then (takeWhile (\<lambda>x. x \<noteq> c) s, True, drop 1 (dropWhile (\<lambda>x. x \<noteq> c) s))
      else (s, False, []))"

definition str_rpartition :: "char \<Rightarrow> string \<Rightarrow> string \<times> bool \<times> string" where
  "str_rpartition c s =
     (if c \<in> set s then
        (rev (drop 1 (dropWhile (\<lambda>x. x \<noteq> c) (rev s))), True, rev (takeWhile (\<lambda>x. x \<noteq> c) (rev s)))
      else ([], False, s))"

text \<open>\<^verbatim>\<open>s.split(c)\<close>.\<close>

fun str_split :: "char \<Rightarrow> string \<Rightarrow> string list" where
  "str_split c [] = [[]]"
| "str_split c (x # xs) =
     (if x = c then [] # str_split c xs
      else (case str_split c xs of w # ws \<Rightarrow> (x # w) # ws | [] \<Rightarrow> [[x]]))"

text \<open>\<^verbatim>\<open>sub in s\<close> and \<^verbatim>\<open>s.replace(old, new)\<close> for a non-empty \<open>old\<close>.\<close>

fun contains :: "string \<Rightarrow> string \<Rightarrow> bool" where
  "contains sub [] = (sub = [])"
| "contains sub (c # cs) = (startswith (c # cs) sub \<or> contains sub cs)"

function replace :: "string \<Rightarrow> string \<Rightarrow> string \<Rightarrow> string" where
  "replace old new [] = []"
| "replace old new (c # cs) =
     (if old \<noteq> [] \<and> startswith (c # cs) old then new @ replace old new (drop (length old) (c # cs))
      else c # replace old new cs)"
  by pat_completeness auto
termination
  by (relation "measure (\<lambda>(old, new, s). length s)") auto

record SplitResult =
  scheme :: string
  netloc :: string
  path :: string
  query :: string
  fragment :: string

definition is_scheme_char :: "char \<Rightarrow> bool" where
  "is_scheme_char c = (is_ascii_alpha c \<or> is_ascii_digit c \<or> c \<in> set ''+-.'')"

text \<open>The scheme is split off when the text before the first colon starts with a letter
  and consists of scheme characters.\<close>

definition split_scheme :: "string \<Rightarrow> string \<times> string" where
  "split_scheme url =
     (let pre = takeWhile (\<lambda>c. c \<noteq> CHR '':'') url
      in if CHR '':'' \<in> set url \<and> pre \<noteq> [] \<and> is_ascii_alpha (hd pre) \<and> list_all is_scheme_char pre
         then (lower pre, drop (length pre + 1) url)
         else ([], url))"

text \<open>\<^verbatim>\<open>_splitnetloc(url, 2)\<close>, given \<^verbatim>\<open>url[2:]\<close>: up to the first of \<^verbatim>\<open>/ ? #\<close>.\<close>

definition splitnetloc :: "string \<Rightarrow> string \<times> string" where
  "splitnetloc rest =
     (takeWhile (\<lambda>c. c \<notin> set ''/?#'') rest, dropWhile (\<lambda>c. c \<notin> set ''/?#'') rest)"

definition urlsplit :: "string \<Rightarrow> exn + SplitResult" where
  "urlsplit url0 =
     (let url1 = dropWhile (\<lambda>c. (of_char c :: nat) \<le> 32) url0;
          url2 = filter (\<lambda>c. c \<notin> set [CHR 0x09, CHR 0x0D, CHR 0x0A]) url1;
          (scheme', url3) = split_scheme url2;
          (netloc', url4) = (if take 2 url3 = ''//'' then splitnetloc (drop 2 url3) else ([], url3))
      in if (CHR ''['' \<in> set netloc' \<and> CHR '']'' \<notin> set netloc') \<or>
            (CHR '']'' \<in> set netloc' \<and> CHR ''['' \<notin> set netloc')
         then Inl (ValueError ''Invalid IPv6 URL'')
         else
           let (url5, _, fragment') = str_partition CHR ''#'' url4;
               (url6, _, query') = str_partition CHR ''?'' url5
           in Inr \<lparr>scheme = scheme', netloc = netloc', path = url6, query = query',
                    fragment = fragment'\<rparr>)"

text \<open>\<^verbatim>\<open>SplitResult._userinfo\<close> and \<^verbatim>\<open>SplitResult._hostinfo\<close>, then the four properties.\<close>

definition userinfo_of :: "SplitResult \<Rightarrow> string option \<times> string option" where
  "userinfo_of parsed =
     (let (userinfo, have_info, hostinfo) = str_rpartition CHR ''@'' (netloc parsed)
      in if have_info then
           (let (username', have_password, password') = str_partition CHR '':'' userinfo
            in (Some username', if have_password then Some password' else None))
         else (None, None))"

definition hostinfo_of :: "SplitResult \<Rightarrow> string \<times> string option" where
  "hostinfo_of parsed =
     (let (_, _, hostinfo) = str_rpartition CHR ''@'' (netloc parsed);
          (_, have_open_br, bracketed) = str_partition CHR ''['' hostinfo;
          (hostname', port') =
            (if have_open_br then
               (let (h, _, p) = str_partition CHR '']'' bracketed;
                    (_, _, p') = str_partition CHR '':'' p
                in (h, p'))
             else
               (let (h, _, p) = str_partition CHR '':'' hostinfo in (h, p)))
      in (hostname', if port' = [] then None else Some port'))"

definition username :: "SplitResult \<Rightarrow> string option" where
  "username parsed = fst (userinfo_of parsed)"

definition password :: "SplitResult \<Rightarrow> string option" where
  "password parsed = snd (userinfo_of parsed)"

definition hostname :: "SplitResult \<Rightarrow> string option" where
  "hostname parsed =
     (let h = fst (hostinfo_of parsed)
      in if h = [] then None
         else (let (h', have_percent, zone) = str_partition CHR ''%'' h
               in Some (lower h' @ (if have_percent then ''%'' else []) @ zone)))"

fun int_of_digits :: "nat \<Rightarrow> string \<Rightarrow> nat" where
  "int_of_digits acc [] = acc"
| "int_of_digits acc (c # cs) = int_of_digits (10 * acc + ((of_char c :: nat) - 48)) cs"

definition port :: "SplitResult \<Rightarrow> exn + nat option" where
  "port parsed =
     (case snd (hostinfo_of parsed) of
        None \<Rightarrow> Inr None
      | Some p \<Rightarrow>
          if list_all is_ascii_digit p then
            (if int_of_digits 0 p \<le> 65535 then Inr (Some (int_of_digits 0 p))
             else Inl (ValueError ''Port out of range 0-65535''))
          else Inl (ValueError (''Port could not be cast to integer value as '' @ repr_str p)))"

definition uses_netloc :: "string list" where
  "uses_netloc = ['''', ''ftp'', ''http'', ''gopher'', ''nntp'', ''telnet'', ''imap'', ''wais'',
     ''file'', ''mms'', ''https'', ''shttp'', ''snews'', ''prospero'', ''rtsp'', ''rtsps'',
     ''rtspu'', ''rsync'', ''svn'', ''svn+ssh'', ''sftp'', ''nfs'', ''git'', ''git+ssh'',
     ''ws'', ''wss'', ''itms-services'']"

definition urlunsplit :: "string \<Rightarrow> string \<Rightarrow> string \<Rightarrow> string \<Rightarrow> string \<Rightarrow> string" where
  "urlunsplit scheme' netloc' url query' fragment' =
     (let url1 =
            (if netloc' \<noteq> [] \<or> (scheme' \<noteq> [] \<and> scheme' \<in> set uses_netloc \<and> take 2 url \<noteq> ''//'')
             then ''//'' @ netloc' @ (if url \<noteq> [] \<and> take 1 url \<noteq> ''/'' then ''/'' @ url else url)
             else url);
          url2 = (if scheme' \<noteq> [] then scheme' @ '':'' @ url1 else url1);
          url3 = (if query' \<noteq> [] then url2 @ ''?'' @ query' else url2)
      in if fragment' \<noteq> [] then url3 @ ''#'' @ fragment' else url3)"

text \<open>\<^verbatim>\<open>quote(s, safe="")\<close>: everything but letters, digits and \<^verbatim>\<open>_.-~\<close> is percent-encoded.\<close>

definition quote :: "string \<Rightarrow> string" where
  "quote s =
     concat (map (\<lambda>c. if is_ascii_alpha c \<or> is_ascii_digit c \<or> c \<in> set ''_.-~'' then [c]
                      else CHR ''%'' # map ascii_upper (hex2 c)) s)"

text \<open>\<^verbatim>\<open>posixpath.normpath\<close>: the loop over the components, then the function.\<close>

fun normpath_comps :: "nat \<Rightarrow> string list \<Rightarrow> string list \<Rightarrow> string list" where
  "normpath_comps initial_slashes new_comps [] = new_comps"
| "normpath_comps initial_slashes new_comps (name # comps) =
     (if name = [] \<or> name = ''.'' then normpath_comps initial_slashes new_comps comps
      else if name \<noteq> ''..'' \<or> (initial_slashes = 0 \<and> new_comps = []) \<or>
              (new_comps \<noteq> [] \<and> last new_comps = ''..'')
        then normpath_comps initial_slashes (new_comps @ [name]) comps
      else if new_comps \<noteq> [] then normpath_comps initial_slashes (butlast new_comps) comps
      else normpath_comps initial_slashes new_comps comps)"

definition normpath :: "string \<Rightarrow> string" where
  "normpath path' =
     (if path' = [] then ''.''
      else
        let initial_slashes =
              (if startswith path' ''/'' then
                 (if startswith path' ''//'' \<and> \<not> startswith path' ''///'' then 2 else 1)
               else 0);
            comps = normpath_comps initial_slashes [] (str_split CHR ''/'' path');
            joined = replicate initial_slashes CHR ''/'' @ join ''/'' comps
        in if joined = [] then ''.'' else joined)"

subsection \<open>\<^verbatim>\<open>normalize_percent_hex\<close> and \<^verbatim>\<open>canonicalize_artifact_url\<close>\<close>

text \<open>\<^verbatim>\<open>re.sub(r"%[0-9a-fA-F]{2}", upper, path)\<close>: matches are taken from left to right.\<close>

fun normalize_percent_hex :: "string \<Rightarrow> string" where
  "normalize_percent_hex (p # a # b # rest) =
     (if p = CHR ''%'' \<and> is_hex_digit a \<and> is_hex_digit b
      then p # ascii_upper a # ascii_upper b # normalize_percent_hex rest
      else p # normalize_percent_hex (a # b # rest))"
| "normalize_percent_hex s = s"

definition canonicalize_artifact_url :: "string \<Rightarrow> exn + string" where
  "canonicalize_artifact_url url =
     (case urlsplit url of
        Inl e \<Rightarrow> Inl e
      | Inr parsed \<Rightarrow>
          if scheme parsed = [] \<or> netloc parsed = [] then
            Inl (ValueError ''URL must include scheme and host'')
          else
            let scheme' = lower (scheme parsed);
                host = lower (case hostname parsed of None \<Rightarrow> [] | Some h \<Rightarrow> h)
            in if host = [] then Inl (ValueError ''URL host is missing'')
               else
                 let userinfo =
                       (case username parsed of
                          None \<Rightarrow> []
                        | Some u \<Rightarrow>
                            u @ (case password parsed of None \<Rightarrow> [] | Some pw \<Rightarrow> '':'' @ pw) @ ''@'')
                 in (case port parsed of
                       Inl e \<Rightarrow> Inl e
                     | Inr port' \<Rightarrow>
                         let include_port =
                               (port' \<noteq> None \<and>
                                \<not> ((scheme' = ''http'' \<and> port' = Some 80) \<or>
                                   (scheme' = ''https'' \<and> port' = Some 443)));
                             netloc' = userinfo @ host @
                               (case port' of
                                  Some n \<Rightarrow> if include_port then '':'' @ str_nat n else []
                                | None \<Rightarrow> []);
                             original_path = (if path parsed = [] then ''/'' else path parsed);
                             trailing_slash = endswith original_path ''/'';
                             norm_path0 = normpath original_path;
                             norm_path1 =
                               (if \<not> startswith norm_path0 ''/'' then ''/'' @ norm_path0 else norm_path0);
                             norm_path2 =
                               (if trailing_slash \<and> \<not> endswith norm_path1 ''/'' then norm_path1 @ ''/''
                                else norm_path1);
                             path' = normalize_percent_hex norm_path2;
                             query' = normalize_percent_hex (query parsed)
                         in Inr (urlunsplit scheme' netloc' path' query' [])))"

subsection \<open>\<^verbatim>\<open>sha256_hex\<close> and \<^verbatim>\<open>compute_event_hash\<close>\<close>

text \<open>
  \<^verbatim>\<open>hashlib.sha256(raw).hexdigest()\<close> is a library function: it is the parameter
  \<open>sha256_hex\<close> of everything that hashes. \<^verbatim>\<open>copy.deepcopy\<close> is the identity on values.
\<close>

definition compute_event_hash :: "(string \<Rightarrow> string) \<Rightarrow> json \<Rightarrow> string" where
  "compute_event_hash sha256_hex event =
     (let evt = JObj (dict_pop ''event_hash'' (items event))
      in sha256_hex (canonical_json_bytes evt))"

subsection \<open>\<^verbatim>\<open>parse_utc_or_die\<close>\<close>

text \<open>
  A \<^verbatim>\<open>datetime\<close> is its wall-clock time in microseconds since 0001-01-01T00:00:00 and
  the UTC offset of its \<^verbatim>\<open>tzinfo\<close> in microseconds (\<open>None\<close> for a naive value).
  \<^verbatim>\<open>datetime.fromisoformat\<close> is a library function, the parameter \<open>fromisoformat\<close>
  (\<open>None\<close> where it raises \<^verbatim>\<open>ValueError\<close>). \<^verbatim>\<open>astimezone(timezone.utc)\<close> subtracts
  the offset and raises \<^verbatim>\<open>OverflowError\<close> when the result leaves the years 1 to 9999.
  An aware UTC \<^verbatim>\<open>datetime\<close> is the integer of its microseconds.
\<close>

record datetime =
  wall_us :: int
  utcoffset_us :: "int option"

definition MAX_US :: int where
  "MAX_US = 3652059 * 86400000000 - 1"

definition astimezone_utc :: "datetime \<Rightarrow> int \<Rightarrow> exn + int" where
  "astimezone_utc dt off =
     (let utc = wall_us dt - off
      in if 0 \<le> utc \<and> utc \<le> MAX_US then Inr utc else Inl OverflowError)"

definition parse_utc_or_die :: "(string \<Rightarrow> datetime option) \<Rightarrow> string \<Rightarrow> exn + int" where
  "parse_utc_or_die fromisoformat text0 =
     (let text = (if endswith text0 ''Z'' then butlast text0 @ ''+00:00'' else text0)
      in case fromisoformat text of
           None \<Rightarrow> Inl (ValueError (''invalid RFC3339 timestamp: '' @ text))
         | Some dt \<Rightarrow>
             (case utcoffset_us dt of
                None \<Rightarrow> Inl (ValueError ''timestamp must include timezone'')
              | Some off \<Rightarrow> astimezone_utc dt off))"

section \<open>ChainVerifier\<close>

definition VERDICT_VERIFIED :: string where "VERDICT_VERIFIED = ''VERIFIED''"
definition VERDICT_UNDECLARED :: string where "VERDICT_UNDECLARED = ''UNDECLARED''"
definition VERDICT_UNVERIFIABLE :: string where "VERDICT_UNVERIFIABLE = ''UNVERIFIABLE''"
definition VERDICT_INVALID_INPUT :: string where "VERDICT_INVALID_INPUT = ''INVALID_INPUT''"
definition VERDICT_INVALID_CHAIN :: string where "VERDICT_INVALID_CHAIN = ''INVALID_CHAIN''"
definition VERDICT_POLICY_VIOLATION :: string where "VERDICT_POLICY_VIOLATION = ''POLICY_VIOLATION''"

definition ATTESTATION_EVENTS :: "string set" where
  "ATTESTATION_EVENTS = {''ATTESTATION_ISSUED'', ''ATTESTATION_SUPERSEDED''}"

record VerificationResult =
  verdict :: string
  errors :: "string list"
  checked_events :: nat
  active_event_id :: "string option"

abbreviation result :: "string \<Rightarrow> string list \<Rightarrow> nat \<Rightarrow> string option \<Rightarrow> VerificationResult" where
  "result v e c a \<equiv> \<lparr>verdict = v, errors = e, checked_events = c, active_event_id = a\<rparr>"

text \<open>
  What a piece of the loop body does: return from \<^verbatim>\<open>verify_chain\<close>, raise, or go on with a
  value.
\<close>

datatype 'a outcome = Return VerificationResult | Raise exn | Continue 'a

text \<open>The local variables the loop carries from one event to the next.\<close>

record walk_state =
  st_prev_hash :: "string option"
  st_active_event_id :: "string option"
  st_errors :: "string list"

text \<open>
  \<^verbatim>\<open>event_key\<close> and \<^verbatim>\<open>sorted(events, key=event_key)\<close>. The key function calls \<^verbatim>\<open>evt.get\<close>
  on every element before anything is compared, so an element that is not a dict raises
  \<^verbatim>\<open>AttributeError\<close>. \<^verbatim>\<open>sorted\<close> is stable, as \<open>sort_key\<close> is; tuples of strings compare
  lexicographically.
\<close>

definition event_key :: "json \<Rightarrow> string \<times> string" where
  "event_key evt =
     (py_str (dict_get_default evt ''recorded_at'' (JStr [])),
      py_str (dict_get_default evt ''event_id'' (JStr [])))"

definition sorted_events :: "json list \<Rightarrow> exn + json list" where
  "sorted_events events =
     (if list_all is_dict events then Inr (sort_key event_key events) else Inl AttributeError)"

text \<open>The value of \<^verbatim>\<open>prev_hash\<close>, which is \<^verbatim>\<open>None\<close> or a string, as a JSON value.\<close>

definition hash_value :: "string option \<Rightarrow> json" where
  "hash_value h = (case h of None \<Rightarrow> JNull | Some s \<Rightarrow> JStr s)"

text \<open>Lines 170 to 183: the genesis check and the link to the previous event.\<close>

definition check_link :: "nat \<Rightarrow> string option \<Rightarrow> string \<Rightarrow> json \<Rightarrow> VerificationResult option" where
  "check_link index prev_hash event_id prev_event_hash =
     (if index = 0 then
        (if prev_event_hash \<notin> set [JNull, JStr [], JStr ''null''] then
           Some (result VERDICT_INVALID_CHAIN
                  [''genesis event '' @ event_id @ '' has non-null prev_event_hash''] (index + 1) None)
         else None)
      else
        (if prev_event_hash \<noteq> hash_value prev_hash then
           Some (result VERDICT_INVALID_CHAIN
                  [''prev_event_hash mismatch at '' @ event_id] (index + 1) None)
         else None))"

text \<open>Lines 196 to 217: the three policy requirements of an attestation event.\<close>

definition check_policy :: "bool \<Rightarrow> bool \<Rightarrow> bool \<Rightarrow> nat \<Rightarrow> string \<Rightarrow> json \<Rightarrow> VerificationResult option" where
  "check_policy signature_required timestamp_required transparency_required index event_id evt =
     (let signature = as_dict (dict_get evt ''signature'');
          timestamp = as_dict (dict_get evt ''timestamp'');
          transparency = as_dict (dict_get evt ''transparency'')
      in if signature_required \<and> \<not> truthy (dict_get signature ''value'') then
           Some (result VERDICT_POLICY_VIOLATION
                  [''signature missing for required event '' @ event_id] (index + 1) None)
         else if timestamp_required \<and> \<not> truthy (dict_get timestamp ''value'') then
           Some (result VERDICT_POLICY_VIOLATION
                  [''timestamp missing for required event '' @ event_id] (index + 1) None)
         else if transparency_required \<and> \<not> truthy (dict_get transparency ''entry_id'') then
           Some (result VERDICT_POLICY_VIOLATION
                  [''transparency proof missing for required event '' @ event_id] (index + 1) None)
         else None)"

text \<open>
  Lines 185 to 221: hash recomputation and policy, both only for an event that carries
  \<^verbatim>\<open>issuer\<close>, \<^verbatim>\<open>canonicalization\<close> and \<^verbatim>\<open>artifact\<close>. The value continued with is the list
  \<^verbatim>\<open>errors\<close>.
\<close>

definition full_payload :: "json \<Rightarrow> bool" where
  "full_payload evt = (dict_has evt ''issuer'' \<and> dict_has evt ''canonicalization'' \<and> dict_has evt ''artifact'')"

definition check_payload ::
  "(string \<Rightarrow> string) \<Rightarrow> bool \<Rightarrow> bool \<Rightarrow> bool \<Rightarrow> nat \<Rightarrow> string \<Rightarrow> string \<Rightarrow> json \<Rightarrow> string list
     \<Rightarrow> string list outcome" where
  "check_payload sha256_hex signature_required timestamp_required transparency_required
       index event_id event_hash evt errs =
     (if full_payload evt then
        (if compute_event_hash sha256_hex evt \<noteq> event_hash then
           Return (result VERDICT_INVALID_CHAIN [''event_hash mismatch at '' @ event_id] (index + 1) None)
         else if py_str (dict_get_default evt ''event_type'' (JStr [])) \<in> ATTESTATION_EVENTS then
           (case check_policy signature_required timestamp_required transparency_required
                   index event_id evt of
              Some r \<Rightarrow> Return r
            | None \<Rightarrow>
                Continue
                  (if signature_required \<and> truthy (dict_get (as_dict (dict_get evt ''signature'')) ''value'')
                   then errs @ [''cryptographic signature verification not implemented for '' @ event_id]
                   else errs))
         else Continue errs)
      else Continue errs)"

text \<open>
  Lines 223 to 230: the active event. \<^verbatim>\<open>and\<close> is lazy, so \<^verbatim>\<open>recorded_at\<close> is parsed only when
  \<^verbatim>\<open>effective_at\<close> is not after the evaluation time; only \<^verbatim>\<open>ValueError\<close> is caught. The
  value continued with is \<^verbatim>\<open>active_event_id\<close>.
\<close>

definition resolve_active ::
  "(string \<Rightarrow> datetime option) \<Rightarrow> int \<Rightarrow> nat \<Rightarrow> string \<Rightarrow> json \<Rightarrow> string option
     \<Rightarrow> string option outcome" where
  "resolve_active fromisoformat evaluated_at index event_id evt active =
     (if truthy (dict_get evt ''effective_at'') \<and> truthy (dict_get evt ''recorded_at'') then
        (case parse_utc_or_die fromisoformat (py_str (dict_get evt ''effective_at'')) of
           Inl (ValueError msg) \<Rightarrow> Return (result VERDICT_INVALID_INPUT [msg] (index + 1) None)
         | Inl e \<Rightarrow> Raise e
         | Inr effective \<Rightarrow>
             if effective \<le> evaluated_at then
               (case parse_utc_or_die fromisoformat (py_str (dict_get evt ''recorded_at'')) of
                  Inl (ValueError msg) \<Rightarrow> Return (result VERDICT_INVALID_INPUT [msg] (index + 1) None)
                | Inl e \<Rightarrow> Raise e
                | Inr recorded \<Rightarrow> Continue (if recorded \<le> evaluated_at then Some event_id else active))
             else Continue active)
      else Continue active)"

text \<open>The body of the loop, lines 161 to 232.\<close>

definition event_id_of :: "json \<Rightarrow> string" where
  "event_id_of evt = py_strip (py_str (dict_get_default evt ''event_id'' (JStr [])))"

definition event_hash_of :: "json \<Rightarrow> string" where
  "event_hash_of evt = py_strip (py_str (dict_get_default evt ''event_hash'' (JStr [])))"

definition check_event ::
  "(string \<Rightarrow> string) \<Rightarrow> (string \<Rightarrow> datetime option) \<Rightarrow> bool \<Rightarrow> bool \<Rightarrow> bool \<Rightarrow> int
     \<Rightarrow> nat \<Rightarrow> walk_state \<Rightarrow> json \<Rightarrow> walk_state outcome" where
  "check_event sha256_hex fromisoformat signature_required timestamp_required transparency_required
       evaluated_at index st evt =
     (if \<not> is_dict evt then
        Return (result VERDICT_INVALID_CHAIN [''event is not an object''] index None)
      else
        let event_id = event_id_of evt;
            event_hash = event_hash_of evt;
            prev_event_hash = dict_get evt ''prev_event_hash''
        in if event_id = [] \<or> event_hash = [] then
             Return (result VERDICT_INVALID_CHAIN [''event_id or event_hash missing''] index None)
           else
             (case check_link index (st_prev_hash st) event_id prev_event_hash of
                Some r \<Rightarrow> Return r
              | None \<Rightarrow>
                  (case check_payload sha256_hex signature_required timestamp_required
                          transparency_required index event_id event_hash evt (st_errors st) of
                     Return r \<Rightarrow> Return r
                   | Raise e \<Rightarrow> Raise e
                   | Continue errs \<Rightarrow>
                       (case resolve_active fromisoformat evaluated_at index event_id evt
                               (st_active_event_id st) of
                          Return r \<Rightarrow> Return r
                        | Raise e \<Rightarrow> Raise e
                        | Continue active \<Rightarrow>
                            Continue \<lparr>st_prev_hash = Some event_hash,
                                      st_active_event_id = active,
                                      st_errors = errs\<rparr>))))"

text \<open>The loop \<^verbatim>\<open>for index, evt in enumerate(ordered)\<close>, from position \<open>index\<close> on.\<close>

fun walk ::
  "(string \<Rightarrow> string) \<Rightarrow> (string \<Rightarrow> datetime option) \<Rightarrow> bool \<Rightarrow> bool \<Rightarrow> bool \<Rightarrow> int
     \<Rightarrow> nat \<Rightarrow> walk_state \<Rightarrow> json list \<Rightarrow> walk_state outcome" where
  "walk sha256_hex fromisoformat sr tr xr now index st [] = Continue st"
| "walk sha256_hex fromisoformat sr tr xr now index st (evt # rest) =
     (case check_event sha256_hex fromisoformat sr tr xr now index st evt of
        Return r \<Rightarrow> Return r
      | Raise e \<Rightarrow> Raise e
      | Continue st' \<Rightarrow> walk sha256_hex fromisoformat sr tr xr now (Suc index) st' rest)"

definition initial_state :: walk_state where
  "initial_state = \<lparr>st_prev_hash = None, st_active_event_id = None, st_errors = []\<rparr>"

definition policy_flag :: "json \<Rightarrow> string \<Rightarrow> bool" where
  "policy_flag domain_doc name = truthy (dict_get (as_dict (dict_get domain_doc ''policy'')) name)"

definition verify_chain ::
  "(string \<Rightarrow> string) \<Rightarrow> (string \<Rightarrow> datetime option) \<Rightarrow> json \<Rightarrow> json \<Rightarrow> int
     \<Rightarrow> exn + VerificationResult" where
  "verify_chain sha256_hex fromisoformat domain_doc chain_doc evaluated_at =
     (if \<not> is_dict chain_doc then Inl AttributeError
      else
        (case dict_get chain_doc ''events'' of
           JArr events \<Rightarrow>
             if events = [] then
               Inr (result VERDICT_INVALID_CHAIN [''events array missing or empty''] 0 None)
             else
               (case sorted_events events of
                  Inl e \<Rightarrow> Inl e
                | Inr ordered \<Rightarrow>
                    if \<not> is_dict domain_doc then Inl AttributeError
                    else
                      (case walk sha256_hex fromisoformat
                              (policy_flag domain_doc ''signature_required'')
                              (policy_flag domain_doc ''timestamp_required'')
                              (policy_flag domain_doc ''transparency_anchoring_required'')
                              evaluated_at 0 initial_state ordered of
                         Return r \<Rightarrow> Inr r
                       | Raise e \<Rightarrow> Inl e
                       | Continue st \<Rightarrow>
                           if st_errors st \<noteq> [] then
                             Inr (result VERDICT_UNVERIFIABLE (st_errors st) (length ordered)
                                    (st_active_event_id st))
                           else
                             Inr (result VERDICT_VERIFIED [] (length ordered)
                                    (st_active_event_id st))))
         | _ \<Rightarrow> Inr (result VERDICT_INVALID_CHAIN [''events array missing or empty''] 0 None)))"

section \<open>DiscoveryClient\<close>

text \<open>
  \<^verbatim>\<open>fetch_json(url, timeout)\<close> does network I/O: it is the parameter \<open>fetch_json\<close>, which
  gives the decoded document or the exception raised, an \<^verbatim>\<open>HTTPError\<close> with its code or any
  other \<^verbatim>\<open>Exception\<close>, each with the text \<^verbatim>\<open>str(exc)\<close>.
\<close>

datatype fetch_failure = HTTPError int string | OtherException string

fun failure_str :: "fetch_failure \<Rightarrow> string" where
  "failure_str (HTTPError code msg) = msg"
| "failure_str (OtherException msg) = msg"

text \<open>\<^verbatim>\<open>re.fullmatch(r"[0-9a-f]{64}", s)\<close>.\<close>

definition is_lower_hex :: "char \<Rightarrow> bool" where
  "is_lower_hex c = (let n = (of_char c :: nat) in (48 \<le> n \<and> n \<le> 57) \<or> (97 \<le> n \<and> n \<le> 102))"

definition is_sha256_hex :: "string \<Rightarrow> bool" where
  "is_sha256_hex s = (length s = 64 \<and> list_all is_lower_hex s)"

text \<open>Lines 268 to 296: the check of a v1.0 projection manifest.\<close>

definition manifest_suffix :: "json \<Rightarrow> string" where
  "manifest_suffix domain_doc =
     (let artifact_discovery = dict_get domain_doc ''artifact_discovery''
      in if is_dict artifact_discovery then
           (case dict_get artifact_discovery ''suffix'' of
              JStr s \<Rightarrow> s
            | _ \<Rightarrow> ''.provenance.json'')
         else ''.provenance.json'')"

definition verify_manifest ::
  "(string \<Rightarrow> int \<Rightarrow> fetch_failure + json) \<Rightarrow> json \<Rightarrow> string \<Rightarrow> int \<Rightarrow> exn + VerificationResult" where
  "verify_manifest fetch_json domain_doc canonical_url timeout =
     (let suffix = manifest_suffix domain_doc;
          manifest_url = canonical_url @ suffix
      in case fetch_json manifest_url timeout of
           Inl exc \<Rightarrow>
             Inr (result VERDICT_UNVERIFIABLE [''manifest fetch failed: '' @ failure_str exc] 0 None)
         | Inr manifest \<Rightarrow>
             if \<not> is_dict manifest then Inl AttributeError
             else
               (case canonicalize_artifact_url
                       (py_str (dict_get_default manifest ''artifact_url'' (JStr []))) of
                  Inl e \<Rightarrow> Inl e
                | Inr manifest_canonical \<Rightarrow>
                    if manifest_canonical \<noteq> canonical_url then
                      Inr (result VERDICT_INVALID_INPUT [''manifest artifact_url mismatch''] 0 None)
                    else
                      let content_hash =
                            py_strip (py_str (dict_get_default manifest ''content_sha256'' (JStr [])))
                      in if \<not> is_sha256_hex content_hash then
                           Inr (result VERDICT_INVALID_INPUT
                                  [''manifest content_sha256 is not valid hex sha256''] 0 None)
                         else
                           let signature_required = policy_flag domain_doc ''signature_required'';
                               signature = as_dict (dict_get manifest ''signature'')
                           in if signature_required \<and> \<not> truthy (dict_get signature ''value'') then
                                Inr (result VERDICT_POLICY_VIOLATION
                                       [''signature required but missing''] 0 None)
                              else if signature_required then
                                Inr (result VERDICT_UNVERIFIABLE
                                       [''cryptographic signature verification is not implemented for v1.0 projection manifests'']
                                       0 None)
                              else Inr (result VERDICT_VERIFIED [] 0 None)))"

text \<open>Lines 253 to 266: the v1.1 path, taken when the test of line 254 holds.\<close>

definition is_v11 :: "json \<Rightarrow> bool" where
  "is_v11 domain_doc =
     (startswith (py_str (dict_get_default domain_doc ''spec_version'' (JStr ''1.0''))) ''1.1'' \<and>
      is_dict (dict_get domain_doc ''evidence_api''))"

definition verify_events ::
  "(string \<Rightarrow> string) \<Rightarrow> (string \<Rightarrow> datetime option) \<Rightarrow> (string \<Rightarrow> int \<Rightarrow> fetch_failure + json)
     \<Rightarrow> json \<Rightarrow> string \<Rightarrow> int \<Rightarrow> int \<Rightarrow> exn + VerificationResult" where
  "verify_events sha256_hex fromisoformat fetch_json domain_doc canonical_url timeout evaluated_at =
     (case dict_get (dict_get domain_doc ''evidence_api'') ''events_by_artifact'' of
        JStr template \<Rightarrow>
          if \<not> contains ''{artifact_url}'' template then
            Inr (result VERDICT_UNVERIFIABLE [''events_by_artifact URL template missing''] 0 None)
          else
            let events_url = replace ''{artifact_url}'' (quote canonical_url) template
            in (case fetch_json events_url timeout of
                  Inl exc \<Rightarrow>
                    Inr (result VERDICT_UNVERIFIABLE [''events fetch failed: '' @ failure_str exc] 0 None)
                | Inr fetched \<Rightarrow>
                    let chain_doc = (case fetched of JArr xs \<Rightarrow> JObj [(''events'', fetched)] | _ \<Rightarrow> fetched)
                    in verify_chain sha256_hex fromisoformat domain_doc chain_doc evaluated_at)
      | _ \<Rightarrow> Inr (result VERDICT_UNVERIFIABLE [''events_by_artifact URL template missing''] 0 None))"

definition verify_remote_artifact ::
  "(string \<Rightarrow> string) \<Rightarrow> (string \<Rightarrow> datetime option) \<Rightarrow> (string \<Rightarrow> int \<Rightarrow> fetch_failure + json)
     \<Rightarrow> string \<Rightarrow> int \<Rightarrow> int \<Rightarrow> exn + VerificationResult" where
  "verify_remote_artifact sha256_hex fromisoformat fetch_json url timeout evaluated_at =
     (case canonicalize_artifact_url url of
        Inl e \<Rightarrow> Inl e
      | Inr canonical_url \<Rightarrow>
          (case urlsplit canonical_url of
             Inl e \<Rightarrow> Inl e
           | Inr parts \<Rightarrow>
               let domain = netloc parts;
                   well_known_url = ''https://'' @ domain @ ''/.well-known/provenance''
               in (case fetch_json well_known_url timeout of
                     Inl (HTTPError code msg) \<Rightarrow>
                       if code = 404 then
                         Inr (result VERDICT_UNDECLARED [''missing '' @ well_known_url] 0 None)
                       else
                         Inr (result VERDICT_UNVERIFIABLE
                                [''domain policy fetch failed: HTTP '' @ str_int code] 0 None)
                   | Inl (OtherException msg) \<Rightarrow>
                       Inr (result VERDICT_UNVERIFIABLE [''domain policy fetch failed: '' @ msg] 0 None)
                   | Inr domain_doc \<Rightarrow>
                       if \<not> is_dict domain_doc then Inl AttributeError
                       else if is_v11 domain_doc then
                         verify_events sha256_hex fromisoformat fetch_json domain_doc canonical_url
                           timeout evaluated_at
                       else verify_manifest fetch_json domain_doc canonical_url timeout)))"

section \<open>Excerpts of the library functions, for the examples\<close>

text \<open>
  The examples below are evaluated with finite excerpts of \<^verbatim>\<open>hashlib.sha256\<close> and
  \<^verbatim>\<open>datetime.fromisoformat\<close>: each agrees with the library on the strings it lists, and
  the examples give it no other string that the library accepts.
\<close>

definition example_event_json :: string where
  "example_event_json = canonical_json_bytes (JObj
     [(''artifact'', JStr ''u''), (''canonicalization'', JStr ''c''), (''event_id'', JStr ''e1''),
      (''event_type'', JStr ''ATTESTATION_ISSUED''), (''issuer'', JStr ''x'')])"

definition example_event_hash :: string where
  "example_event_hash = ''ae8a5fa2aa7d28d0c27cabc57ede0c33df829f76c86ac92b686ea35322bac72a''"

definition sha256_excerpt :: "string \<Rightarrow> string" where
  "sha256_excerpt raw = (if raw = example_event_json then example_event_hash else [])"

definition fromisoformat_excerpt :: "string \<Rightarrow> datetime option" where
  "fromisoformat_excerpt text =
     (if text = ''2024-01-01T00:00:00+00:00''
        then Some \<lparr>wall_us = 63839664000000000, utcoffset_us = Some 0\<rparr>
      else if text = ''2024-06-01T00:00:00+00:00''
        then Some \<lparr>wall_us = 63852796800000000, utcoffset_us = Some 0\<rparr>
      else if text = ''2024-01-01T00:00:00''
        then Some \<lparr>wall_us = 63839664000000000, utcoffset_us = None\<rparr>
      else if text = ''0001-01-01T00:00:00+01:00''
        then Some \<lparr>wall_us = 0, utcoffset_us = Some 3600000000\<rparr>
      else None)"

text \<open>The evaluation time 2024-03-01T00:00:00Z.\<close>

definition march_2024 :: int where
  "march_2024 = 63844848000000000"

definition chain_of :: "json list \<Rightarrow> json" where
  "chain_of events = JObj [(''events'', JArr events)]"

definition policy_signature_required :: json where
  "policy_signature_required =
     JObj [(''spec_version'', JStr ''1.0''), (''policy'', JObj [(''signature_required'', JBool True)])]"





text \<open>An attestation event without the full payload, and one with it whose
  \<^verbatim>\<open>event_hash\<close> is the SHA-256 of its canonical JSON; neither has a signature.\<close>

definition pointer_attestation :: json where
  "pointer_attestation = JObj
     [(''event_id'', JStr ''p1''), (''event_hash'', JStr ''h''),
      (''event_type'', JStr ''ATTESTATION_ISSUED'')]"

definition unsigned_attestation :: json where
  "unsigned_attestation = JObj
     [(''event_id'', JStr ''e1''), (''event_hash'', JStr example_event_hash),
      (''event_type'', JStr ''ATTESTATION_ISSUED''), (''issuer'', JStr ''x''),
      (''canonicalization'', JStr ''c''), (''artifact'', JStr ''u'')]"

text \<open>Genesis events whose \<^verbatim>\<open>prev_event_hash\<close> is the empty string, and a hash.\<close>

definition genesis_empty_prev :: json where
  "genesis_empty_prev = JObj
     [(''event_id'', JStr ''g''), (''event_hash'', JStr ''h''), (''prev_event_hash'', JStr [])]"

definition genesis_linked :: json where
  "genesis_linked = JObj
     [(''event_id'', JStr ''g''), (''event_hash'', JStr ''h''), (''prev_event_hash'', JStr ''abc'')]"



text \<open>A network of two legacy domains that require signatures: the manifest of the first
  carries a signature value, the manifest of the second an empty one. Every other URL
  answers 404.\<close>

definition manifest_signed :: json where
  "manifest_signed = JObj
     [(''artifact_url'', JStr ''https://example.com/a.html''),
      (''content_sha256'', JStr example_event_hash),
      (''signature'', JObj [(''value'', JStr ''sig'')])]"

definition manifest_empty_signature :: json where
  "manifest_empty_signature = JObj
     [(''artifact_url'', JStr ''https://example.org/a.html''),
      (''content_sha256'', JStr example_event_hash),
      (''signature'', JObj [(''value'', JStr [])])]"

definition example_network :: "string \<Rightarrow> int \<Rightarrow> fetch_failure + json" where
  "example_network url timeout =
     (if url = ''https://example.com/.well-known/provenance'' then Inr policy_signature_required
      else if url = ''https://example.com/a.html.provenance.json'' then Inr manifest_signed
      else if url = ''https://example.org/.well-known/provenance'' then Inr policy_signature_required
      else if url = ''https://example.org/a.html.provenance.json'' then Inr manifest_empty_signature
      else Inl (HTTPError 404 ''HTTP Error 404: Not Found''))"

section \<open>What the specification says, in the terms of the model\<close>









text \<open>The values the genesis check of line 171 takes for "no previous hash".\<close>

definition null_like :: "json \<Rightarrow> bool" where
  "null_like v = (v \<in> set [JNull, JStr [], JStr ''null''])"



section \<open>Properties of the loop\<close>

lemma walk_append:
  "walk sha256_hex fromisoformat sr tr xr now i st (xs @ ys) =
     (case walk sha256_hex fromisoformat sr tr xr now i st xs of
        Return r \<Rightarrow> Return r
      | Raise e \<Rightarrow> Raise e
      | Continue st' \<Rightarrow> walk sha256_hex fromisoformat sr tr xr now (i + length xs) st' ys)"
  by (induction xs arbitrary: i st) (auto split: outcome.splits)

lemma walk_stops_at:
  assumes "walk sha256_hex fromisoformat sr tr xr now 0 st0 pre = Continue st"
    and "check_event sha256_hex fromisoformat sr tr xr now (length pre) st evt = Return r"
  shows "walk sha256_hex fromisoformat sr tr xr now 0 st0 (pre @ evt # post) = Return r"
  using assms by (simp add: walk_append)

lemma events_get_dict: "dict_get chain_doc ''events'' = JArr events \<Longrightarrow> is_dict chain_doc"
  by (cases chain_doc) (auto simp: dict_get_def dict_get_default_def)

lemma sorted_events_Nil: "sorted_events events = Inr ordered \<Longrightarrow> (ordered = []) = (events = [])"
proof -
  assume "sorted_events events = Inr ordered"
  then have "ordered = sort_key event_key events" by (auto simp: sorted_events_def split: if_splits)
  then have "length ordered = length events" by simp
  then show ?thesis by (metis length_0_conv)
qed

lemma sorted_events_dicts: "sorted_events events = Inr ordered \<Longrightarrow> list_all is_dict ordered"
  by (auto simp: sorted_events_def list_all_iff split: if_splits)

text \<open>With object documents and a non-empty array of objects, \<^verbatim>\<open>verify_chain\<close> is the loop
  over the sorted events followed by lines 234 to 236.\<close>

lemma verify_chain_walk:
  assumes "is_dict domain_doc"
    and "dict_get chain_doc ''events'' = JArr events"
    and "sorted_events events = Inr ordered" "ordered \<noteq> []"
  shows "verify_chain sha256_hex fromisoformat domain_doc chain_doc now =
     (case walk sha256_hex fromisoformat (policy_flag domain_doc ''signature_required'')
              (policy_flag domain_doc ''timestamp_required'')
              (policy_flag domain_doc ''transparency_anchoring_required'')
              now 0 initial_state ordered of
         Return r \<Rightarrow> Inr r
       | Raise e \<Rightarrow> Inl e
       | Continue st \<Rightarrow>
           if st_errors st \<noteq> [] then
             Inr (result VERDICT_UNVERIFIABLE (st_errors st) (length ordered) (st_active_event_id st))
           else Inr (result VERDICT_VERIFIED [] (length ordered) (st_active_event_id st)))"
proof -
  from assms(3,4) have "events \<noteq> []" by (simp add: sorted_events_Nil)
  moreover from assms(2) have "is_dict chain_doc" by (rule events_get_dict)
  ultimately show ?thesis using assms by (simp add: verify_chain_def)
qed

section \<open>C5: the genesis event\<close>

lemma check_event_genesis:
  assumes "is_dict evt" "\<not> null_like (dict_get evt ''prev_event_hash'')"
  shows "\<exists>r. check_event sha256_hex fromisoformat sr tr xr now 0 st evt = Return r \<and>
             verdict r = VERDICT_INVALID_CHAIN"
  using assms by (auto simp: check_event_def check_link_def Let_def null_like_def)

text \<open>
  C5, as amended. For a policy object and a chain whose events are all objects (the sort
  succeeds), if the \<^verbatim>\<open>prev_event_hash\<close> of the first event in canonical order is anything
  but \<^verbatim>\<open>null\<close>, the empty string or the string \<^verbatim>\<open>"null"\<close>, \<^verbatim>\<open>verify_chain\<close> returns the
  verdict \<^verbatim>\<open>INVALID_CHAIN\<close>.
\<close>

theorem C5_genesis_prev_event_hash:
  assumes "is_dict domain_doc"
    and "dict_get chain_doc ''events'' = JArr events"
    and "sorted_events events = Inr (genesis # rest)"
    and "\<not> null_like (dict_get genesis ''prev_event_hash'')"
  shows "\<exists>r. verify_chain sha256_hex fromisoformat domain_doc chain_doc evaluated_at = Inr r \<and>
             verdict r = VERDICT_INVALID_CHAIN"
proof -
  from assms(3) have "is_dict genesis" by (auto dest: sorted_events_dicts)
  from check_event_genesis[OF this assms(4)] obtain r where
    r: "check_event sha256_hex fromisoformat (policy_flag domain_doc ''signature_required'')
          (policy_flag domain_doc ''timestamp_required'')
          (policy_flag domain_doc ''transparency_anchoring_required'')
          evaluated_at 0 initial_state genesis = Return r" "verdict r = VERDICT_INVALID_CHAIN"
    by blast
  have "verify_chain sha256_hex fromisoformat domain_doc chain_doc evaluated_at = Inr r"
    using verify_chain_walk[OF assms(1,2,3)] r(1) by simp
  with r(2) show ?thesis by blast
qed

text \<open>The amended C5 at a genesis event whose \<^verbatim>\<open>prev_event_hash\<close> is \<^verbatim>\<open>"abc"\<close>.\<close>

theorem C5_genesis_prev_event_hash_witness:
  "is_dict (JObj []) \<and>
   dict_get (chain_of [genesis_linked]) ''events'' = JArr [genesis_linked] \<and>
   sorted_events [genesis_linked] = Inr [genesis_linked] \<and>
   \<not> null_like (dict_get genesis_linked ''prev_event_hash'') \<and>
   (\<exists>r. verify_chain sha256_excerpt fromisoformat_excerpt (JObj []) (chain_of [genesis_linked]) march_2024
           = Inr r \<and> verdict r = VERDICT_INVALID_CHAIN)"
proof -
  have h1: "is_dict (JObj [])" by simp
  have h2: "dict_get (chain_of [genesis_linked]) ''events'' = JArr [genesis_linked]" by code_simp
  have h3: "sorted_events [genesis_linked] = Inr [genesis_linked]" by code_simp
  have h4: "\<not> null_like (dict_get genesis_linked ''prev_event_hash'')" by code_simp
  show ?thesis
    using h1 h2 h3 h4 C5_genesis_prev_event_hash[OF h1 h2 h3 h4] by blast
qed

text \<open>
  C5 as stated fails: a genesis event whose \<^verbatim>\<open>prev_event_hash\<close> is the empty string, which
  is not \<^verbatim>\<open>null\<close>, is accepted, and the chain is \<^verbatim>\<open>VERIFIED\<close>.
\<close>

theorem C5_counterexample:
  "dict_get genesis_empty_prev ''prev_event_hash'' \<noteq> JNull \<and>
   sorted_events [genesis_empty_prev] = Inr [genesis_empty_prev] \<and>
   verify_chain sha256_excerpt fromisoformat_excerpt (JObj []) (chain_of [genesis_empty_prev]) march_2024
     = Inr (result VERDICT_VERIFIED [] 1 None)"
  by code_simp

section \<open>C9: URL canonicalization is not idempotent on IPv6 hosts\<close>

text \<open>
  C9 says that canonicalizing a canonical URL changes nothing. \<^verbatim>\<open>parsed.hostname\<close> drops the
  brackets of an IPv6 literal and line 69 does not put them back: the canonical form of
  \<^verbatim>\<open>http://[::1]/\<close> is \<^verbatim>\<open>http://::1/\<close>, on which \<^verbatim>\<open>canonicalize_artifact_url\<close> raises
  \<^verbatim>\<open>ValueError\<close>.
\<close>

theorem C9_ipv6_host_not_idempotent:
  "canonicalize_artifact_url ''http://[::1]/'' = Inr ''http://::1/'' \<and>
   canonicalize_artifact_url ''http://::1/'' = Inl (ValueError ''URL host is missing'')"
  by code_simp

section \<open>C10: an event that is not an object\<close>

text \<open>For the events the loop body sees, the count is the position of the event when it is
  not an object or lacks \<^verbatim>\<open>event_id\<close> or \<^verbatim>\<open>event_hash\<close>, and one more for every later
  failure.\<close>

lemma check_link_checked: "check_link i ph eid peh = Some r \<Longrightarrow> checked_events r = i + 1"
  by (auto simp: check_link_def split: if_splits)

lemma check_payload_checked:
  "check_payload sha256_hex sr tr xr i eid eh evt errs = Return r \<Longrightarrow> checked_events r = i + 1"
  by (auto simp: check_payload_def check_policy_def Let_def split: if_splits option.splits)

lemma resolve_active_checked:
  "resolve_active fromisoformat now i eid evt active = Return r \<Longrightarrow> checked_events r = i + 1"
  by (auto simp: resolve_active_def split: if_splits sum.splits exn.splits)

lemma check_event_checked_events:
  assumes "check_event sha256_hex fromisoformat sr tr xr now i st evt = Return r"
  shows "checked_events r =
     (if \<not> is_dict evt \<or> event_id_of evt = [] \<or> event_hash_of evt = [] then i else i + 1)"
  using assms
  by (auto simp: check_event_def Let_def split: if_splits option.splits outcome.splits
           dest: check_link_checked check_payload_checked resolve_active_checked)

text \<open>
  C10 says that a failure on an event that is not an object reports \<^verbatim>\<open>checked_events\<close> equal
  to its position. The loop body does that (line 162), but \<^verbatim>\<open>event_key\<close> has already raised
  \<^verbatim>\<open>AttributeError\<close> on that event inside \<^verbatim>\<open>sorted\<close>: on the chain \<^verbatim>\<open>{"events": [1]}\<close>
  \<^verbatim>\<open>verify_chain\<close> returns no result at all.
\<close>

theorem C10_non_object_event_raises:
  "verify_chain sha256_excerpt fromisoformat_excerpt (JObj []) (chain_of [JInt 1]) march_2024
     = Inl AttributeError \<and>
   check_event sha256_excerpt fromisoformat_excerpt False False False march_2024 0 initial_state (JInt 1)
     = Return (result VERDICT_INVALID_CHAIN [''event is not an object''] 0 None)"
  by code_simp

section \<open>C8: the event hash\<close>




section \<open>C2: the order of the input array\<close>







section \<open>The verdicts of the loop\<close>








section \<open>C3: a required signature\<close>

lemma check_event_policy_violation:
  assumes "is_dict evt" "event_id_of evt \<noteq> []" "event_hash_of evt \<noteq> []"
    and "check_link i (st_prev_hash st) (event_id_of evt) (dict_get evt ''prev_event_hash'') = None"
    and "full_payload evt" "compute_event_hash sha256_hex evt = event_hash_of evt"
    and "py_str (dict_get_default evt ''event_type'' (JStr [])) \<in> ATTESTATION_EVENTS"
    and "sr" "\<not> truthy (dict_get (as_dict (dict_get evt ''signature'')) ''value'')"
  shows "check_event sha256_hex fromisoformat sr tr xr now i st evt =
     Return (result VERDICT_POLICY_VIOLATION
               [''signature missing for required event '' @ event_id_of evt] (i + 1) None)"
  using assms by (simp add: check_event_def check_payload_def check_policy_def Let_def)

text \<open>
  C3, as amended. When the loop reaches an attestation event (\<^verbatim>\<open>ATTESTATION_ISSUED\<close> or
  \<^verbatim>\<open>ATTESTATION_SUPERSEDED\<close>) that has an \<^verbatim>\<open>event_id\<close> and an \<^verbatim>\<open>event_hash\<close>, passes the
  link check, carries \<^verbatim>\<open>issuer\<close>, \<^verbatim>\<open>canonicalization\<close> and \<^verbatim>\<open>artifact\<close> and has the hash
  it declares, and the policy requires a signature while the event has no
  \<^verbatim>\<open>signature.value\<close> (or an empty one), \<^verbatim>\<open>verify_chain\<close> returns \<^verbatim>\<open>POLICY_VIOLATION\<close>
  with \<^verbatim>\<open>checked_events\<close> one more than the position of the event.
\<close>

theorem C3_signature_required:
  assumes "is_dict domain_doc"
    and "dict_get chain_doc ''events'' = JArr events"
    and "sorted_events events = Inr (pre @ evt # post)"
    and "walk sha256_hex fromisoformat (policy_flag domain_doc ''signature_required'')
           (policy_flag domain_doc ''timestamp_required'')
           (policy_flag domain_doc ''transparency_anchoring_required'')
           evaluated_at 0 initial_state pre = Continue st"
    and "event_id_of evt \<noteq> []" "event_hash_of evt \<noteq> []"
    and "check_link (length pre) (st_prev_hash st) (event_id_of evt) (dict_get evt ''prev_event_hash'') = None"
    and "full_payload evt" "compute_event_hash sha256_hex evt = event_hash_of evt"
    and "py_str (dict_get_default evt ''event_type'' (JStr [])) \<in> ATTESTATION_EVENTS"
    and "policy_flag domain_doc ''signature_required''"
    and "\<not> truthy (dict_get (as_dict (dict_get evt ''signature'')) ''value'')"
  shows "verify_chain sha256_hex fromisoformat domain_doc chain_doc evaluated_at =
     Inr (result VERDICT_POLICY_VIOLATION
            [''signature missing for required event '' @ event_id_of evt] (length pre + 1) None)"
proof -
  from assms(3) have "is_dict evt" by (auto dest: sorted_events_dicts)
  from check_event_policy_violation[OF this assms(5-12)]
  have "check_event sha256_hex fromisoformat (policy_flag domain_doc ''signature_required'')
           (policy_flag domain_doc ''timestamp_required'')
           (policy_flag domain_doc ''transparency_anchoring_required'')
           evaluated_at (length pre) st evt =
     Return (result VERDICT_POLICY_VIOLATION
               [''signature missing for required event '' @ event_id_of evt] (length pre + 1) None)" .
  from walk_stops_at[OF assms(4) this]
  show ?thesis using verify_chain_walk[OF assms(1,2,3)] by simp
qed

text \<open>The amended C3 at a chain of one unsigned full-payload attestation event.\<close>

theorem C3_signature_required_witness:
  "is_dict policy_signature_required \<and>
   dict_get (chain_of [unsigned_attestation]) ''events'' = JArr [unsigned_attestation] \<and>
   sorted_events [unsigned_attestation] = Inr ([] @ unsigned_attestation # []) \<and>
   walk sha256_excerpt fromisoformat_excerpt (policy_flag policy_signature_required ''signature_required'')
     (policy_flag policy_signature_required ''timestamp_required'')
     (policy_flag policy_signature_required ''transparency_anchoring_required'')
     march_2024 0 initial_state [] = Continue initial_state \<and>
   event_id_of unsigned_attestation \<noteq> [] \<and> event_hash_of unsigned_attestation \<noteq> [] \<and>
   check_link (length ([] :: json list)) (st_prev_hash initial_state) (event_id_of unsigned_attestation)
     (dict_get unsigned_attestation ''prev_event_hash'') = None \<and>
   full_payload unsigned_attestation \<and>
   compute_event_hash sha256_excerpt unsigned_attestation = event_hash_of unsigned_attestation \<and>
   py_str (dict_get_default unsigned_attestation ''event_type'' (JStr [])) \<in> ATTESTATION_EVENTS \<and>
   policy_flag policy_signature_required ''signature_required'' \<and>
   \<not> truthy (dict_get (as_dict (dict_get unsigned_attestation ''signature'')) ''value'') \<and>
   verify_chain sha256_excerpt fromisoformat_excerpt policy_signature_required
     (chain_of [unsigned_attestation]) march_2024 =
     Inr (result VERDICT_POLICY_VIOLATION [''signature missing for required event e1''] 1 None)"
proof -
  have h1: "is_dict policy_signature_required" by code_simp
  have h2: "dict_get (chain_of [unsigned_attestation]) ''events'' = JArr [unsigned_attestation]"
    by code_simp
  have h3: "sorted_events [unsigned_attestation] = Inr ([] @ unsigned_attestation # [])" by code_simp
  have h4: "walk sha256_excerpt fromisoformat_excerpt (policy_flag policy_signature_required ''signature_required'')
     (policy_flag policy_signature_required ''timestamp_required'')
     (policy_flag policy_signature_required ''transparency_anchoring_required'')
     march_2024 0 initial_state [] = Continue initial_state" by simp
  have h5: "event_id_of unsigned_attestation \<noteq> []" by code_simp
  have h6: "event_hash_of unsigned_attestation \<noteq> []" by code_simp
  have h7: "check_link (length ([] :: json list)) (st_prev_hash initial_state) (event_id_of unsigned_attestation)
     (dict_get unsigned_attestation ''prev_event_hash'') = None" by code_simp
  have h8: "full_payload unsigned_attestation" by code_simp
  have h9: "compute_event_hash sha256_excerpt unsigned_attestation = event_hash_of unsigned_attestation"
    by code_simp
  have h10: "py_str (dict_get_default unsigned_attestation ''event_type'' (JStr [])) \<in> ATTESTATION_EVENTS"
    by code_simp
  have h11: "policy_flag policy_signature_required ''signature_required''" by code_simp
  have h12: "\<not> truthy (dict_get (as_dict (dict_get unsigned_attestation ''signature'')) ''value'')"
    by code_simp
  have id: "event_id_of unsigned_attestation = ''e1''" by code_simp
  show ?thesis
    using h1 h2 h3 h4 h5 h6 h7 h8 h9 h10 h11 h12
      C3_signature_required[OF h1 h2 h3 h4 h5 h6 h7 h8 h9 h10 h11 h12] id
    by simp
qed

text \<open>
  C3 as stated fails: the policy checks are inside the test for the full payload (line 185),
  so an attestation event without \<^verbatim>\<open>issuer\<close>, \<^verbatim>\<open>canonicalization\<close> and \<^verbatim>\<open>artifact\<close> is not
  policy-checked, and an unsigned one is \<^verbatim>\<open>VERIFIED\<close> under a policy that requires signatures.
\<close>

theorem C3_counterexample:
  "py_str (dict_get_default pointer_attestation ''event_type'' (JStr [])) \<in> ATTESTATION_EVENTS \<and>
   \<not> dict_has pointer_attestation ''signature'' \<and>
   policy_flag policy_signature_required ''signature_required'' \<and>
   verify_chain sha256_excerpt fromisoformat_excerpt policy_signature_required
     (chain_of [pointer_attestation]) march_2024 = Inr (result VERDICT_VERIFIED [] 1 None)"
  by code_simp

section \<open>C6: malformed timestamps\<close>







section \<open>C4: the active event\<close>











section \<open>C7: the legacy manifest under a policy that requires signatures\<close>

lemma verdicts_distinct2:
  "VERDICT_UNVERIFIABLE \<noteq> VERDICT_VERIFIED" "VERDICT_POLICY_VIOLATION \<noteq> VERDICT_VERIFIED"
  by (simp_all add: VERDICT_VERIFIED_def VERDICT_POLICY_VIOLATION_def VERDICT_UNVERIFIABLE_def)

lemma verify_manifest_signature_required:
  assumes "fetch_json (canonical_url @ manifest_suffix domain_doc) timeout = Inr manifest"
    and "is_dict manifest"
    and "canonicalize_artifact_url (py_str (dict_get_default manifest ''artifact_url'' (JStr [])))
           = Inr canonical_url"
    and "is_sha256_hex (py_strip (py_str (dict_get_default manifest ''content_sha256'' (JStr []))))"
    and "policy_flag domain_doc ''signature_required''"
  shows "\<exists>r. verify_manifest fetch_json domain_doc canonical_url timeout = Inr r \<and>
     verdict r =
       (if truthy (dict_get (as_dict (dict_get manifest ''signature'')) ''value'')
        then VERDICT_UNVERIFIABLE else VERDICT_POLICY_VIOLATION)"
  using assms by (simp add: verify_manifest_def Let_def)

text \<open>
  C7, as amended. On the legacy path (the policy document is fetched and is not a v1.1
  document with an evidence API), for a manifest that is fetched, whose \<^verbatim>\<open>artifact_url\<close>
  canonicalizes to the canonical URL and whose \<^verbatim>\<open>content_sha256\<close> is 64 lowercase hex
  digits, under a policy that requires signatures: \<^verbatim>\<open>verify_remote_artifact\<close> never returns
  \<^verbatim>\<open>VERIFIED\<close>; it returns \<^verbatim>\<open>UNVERIFIABLE\<close> when \<^verbatim>\<open>signature.value\<close> is present and truthy,
  and \<^verbatim>\<open>POLICY_VIOLATION\<close> when it is absent or falsy (empty, \<^verbatim>\<open>null\<close>, \<^verbatim>\<open>false\<close>, zero).
\<close>

theorem C7_legacy_signature_required:
  assumes "canonicalize_artifact_url url = Inr canonical_url"
    and "urlsplit canonical_url = Inr parts"
    and "fetch_json (''https://'' @ netloc parts @ ''/.well-known/provenance'') timeout = Inr domain_doc"
    and "is_dict domain_doc" "\<not> is_v11 domain_doc"
    and "fetch_json (canonical_url @ manifest_suffix domain_doc) timeout = Inr manifest"
    and "is_dict manifest"
    and "canonicalize_artifact_url (py_str (dict_get_default manifest ''artifact_url'' (JStr [])))
           = Inr canonical_url"
    and "is_sha256_hex (py_strip (py_str (dict_get_default manifest ''content_sha256'' (JStr []))))"
    and "policy_flag domain_doc ''signature_required''"
  shows "\<exists>r. verify_remote_artifact sha256_hex fromisoformat fetch_json url timeout evaluated_at = Inr r \<and>
     verdict r \<noteq> VERDICT_VERIFIED \<and>
     verdict r =
       (if truthy (dict_get (as_dict (dict_get manifest ''signature'')) ''value'')
        then VERDICT_UNVERIFIABLE else VERDICT_POLICY_VIOLATION)"
proof -
  from verify_manifest_signature_required[where fetch_json = fetch_json and timeout = timeout, OF assms(6-10)] obtain r where
    r: "verify_manifest fetch_json domain_doc canonical_url timeout = Inr r"
       "verdict r = (if truthy (dict_get (as_dict (dict_get manifest ''signature'')) ''value'')
                     then VERDICT_UNVERIFIABLE else VERDICT_POLICY_VIOLATION)"
    by blast
  have "verify_remote_artifact sha256_hex fromisoformat fetch_json url timeout evaluated_at = Inr r"
    using assms(1-5) r(1) by (simp add: verify_remote_artifact_def Let_def)
  moreover from r(2) have "verdict r \<noteq> VERDICT_VERIFIED" using verdicts_distinct2 by auto
  ultimately show ?thesis using r(2) by blast
qed

text \<open>The amended C7 at the first domain of the example network, whose manifest is signed.\<close>

theorem C7_legacy_signature_required_witness:
  "canonicalize_artifact_url ''https://example.com/a.html'' = Inr ''https://example.com/a.html'' \<and>
   urlsplit ''https://example.com/a.html'' =
     Inr \<lparr>scheme = ''https'', netloc = ''example.com'', path = ''/a.html'', query = [], fragment = []\<rparr> \<and>
   example_network ''https://example.com/.well-known/provenance'' 10 = Inr policy_signature_required \<and>
   is_dict policy_signature_required \<and> \<not> is_v11 policy_signature_required \<and>
   example_network (''https://example.com/a.html'' @ manifest_suffix policy_signature_required) 10
     = Inr manifest_signed \<and>
   is_dict manifest_signed \<and>
   canonicalize_artifact_url (py_str (dict_get_default manifest_signed ''artifact_url'' (JStr [])))
     = Inr ''https://example.com/a.html'' \<and>
   is_sha256_hex (py_strip (py_str (dict_get_default manifest_signed ''content_sha256'' (JStr [])))) \<and>
   policy_flag policy_signature_required ''signature_required'' \<and>
   truthy (dict_get (as_dict (dict_get manifest_signed ''signature'')) ''value'') \<and>
   (\<exists>r. verify_remote_artifact sha256_excerpt fromisoformat_excerpt example_network
           ''https://example.com/a.html'' 10 march_2024 = Inr r \<and>
         verdict r \<noteq> VERDICT_VERIFIED \<and> verdict r = VERDICT_UNVERIFIABLE)"
proof -
  let ?parts = "\<lparr>scheme = ''https'', netloc = ''example.com'', path = ''/a.html'', query = [], fragment = []\<rparr>"
  have h1: "canonicalize_artifact_url ''https://example.com/a.html'' = Inr ''https://example.com/a.html''"
    by code_simp
  have h2: "urlsplit ''https://example.com/a.html'' = Inr ?parts" by code_simp
  have h3: "example_network (''https://'' @ netloc ?parts @ ''/.well-known/provenance'') 10
     = Inr policy_signature_required" by code_simp
  have h3': "example_network ''https://example.com/.well-known/provenance'' 10 = Inr policy_signature_required"
    by code_simp
  have h4: "is_dict policy_signature_required" by code_simp
  have h5: "\<not> is_v11 policy_signature_required" by code_simp
  have h6: "example_network (''https://example.com/a.html'' @ manifest_suffix policy_signature_required) 10
     = Inr manifest_signed" by code_simp
  have h7: "is_dict manifest_signed" by code_simp
  have h8: "canonicalize_artifact_url (py_str (dict_get_default manifest_signed ''artifact_url'' (JStr [])))
     = Inr ''https://example.com/a.html''" by code_simp
  have h9: "is_sha256_hex (py_strip (py_str (dict_get_default manifest_signed ''content_sha256'' (JStr []))))"
    by code_simp
  have h10: "policy_flag policy_signature_required ''signature_required''" by code_simp
  have h11: "truthy (dict_get (as_dict (dict_get manifest_signed ''signature'')) ''value'')" by code_simp
  from C7_legacy_signature_required[where fetch_json = example_network and timeout = 10,
      OF h1 h2 h3 h4 h5 h6 h7 h8 h9 h10, of sha256_excerpt fromisoformat_excerpt march_2024] h11
  have c: "\<exists>r. verify_remote_artifact sha256_excerpt fromisoformat_excerpt example_network
           ''https://example.com/a.html'' 10 march_2024 = Inr r \<and>
         verdict r \<noteq> VERDICT_VERIFIED \<and> verdict r = VERDICT_UNVERIFIABLE" by simp
  show ?thesis using h1 h2 h3' h4 h5 h6 h7 h8 h9 h10 h11 c by blast
qed

text \<open>
  C7 as stated fails: in the manifest of the second domain \<^verbatim>\<open>signature.value\<close> is present,
  as the empty string, and the verdict is \<^verbatim>\<open>POLICY_VIOLATION\<close>, not \<^verbatim>\<open>UNVERIFIABLE\<close>.
\<close>

theorem C7_counterexample:
  "policy_flag policy_signature_required ''signature_required'' \<and>
   dict_has (dict_get manifest_empty_signature ''signature'') ''value'' \<and>
   verify_remote_artifact sha256_excerpt fromisoformat_excerpt example_network
     ''https://example.org/a.html'' 10 march_2024
     = Inr (result VERDICT_POLICY_VIOLATION [''signature required but missing''] 0 None)"
  by code_simp

section \<open>C1: verdicts and exceptions\<close>















end
